theory Spec2Isabelle
  imports Main
begin

section \<open>Centra webhook events: the embedding\<close>

text \<open>
  The code is \<^verbatim>\<open>createGetCentraWebhookEvents\<close> with its helpers \<^verbatim>\<open>sign\<close>,
  \<^verbatim>\<open>parseNamedParametersString\<close> and \<^verbatim>\<open>parseRawBody\<close>, and the adapter
  \<^verbatim>\<open>nextPagesRouterAdapter\<close>.

  A JavaScript string is modelled by its UTF-8 bytes (\<open>string\<close>, a list of 8-bit
  characters): the separators \<open>,\<close> and \<open>=\<close>, the JSON syntax and the characters kept by
  \<^verbatim>\<open>encodeURIComponent\<close> are ASCII, and HMAC is computed over the UTF-8 bytes. Strings
  holding a lone surrogate have no UTF-8 form and are outside the model (on them
  \<^verbatim>\<open>encodeURIComponent\<close> throws a URIError).
\<close>

subsection \<open>JavaScript values, errors and the platform functions\<close>

text \<open>
  \<open>JNumber m e\<close> is the decimal \<open>m * 10 ^ e\<close>; rounding to a double is not modelled.
  In \<open>JObject\<close> the properties are listed in insertion order with one entry per key.
\<close>

datatype jsval =
    JUndefined
  | JNull
  | JBool bool
  | JNumber int int
  | JString string
  | JArray "jsval list"
  | JObject "(string \<times> jsval) list"

datatype js_error = SyntaxError | Error string

text \<open>Truthiness, as \<^verbatim>\<open>!x\<close> and \<^verbatim>\<open>x && y\<close> test it.\<close>

fun truthy :: "jsval \<Rightarrow> bool" where
  "truthy JUndefined = False"
| "truthy JNull = False"
| "truthy (JBool b) = b"
| "truthy (JNumber m e) = (m \<noteq> 0)"
| "truthy (JString s) = (s \<noteq> [])"
| "truthy (JArray xs) = True"
| "truthy (JObject ps) = True"

text \<open>\<^verbatim>\<open>key in value\<close> and \<^verbatim>\<open>value.key\<close> on an object's own properties.\<close>

fun has_property :: "string \<Rightarrow> jsval \<Rightarrow> bool" where
  "has_property k (JObject ps) = (map_of ps k \<noteq> None)"
| "has_property k _ = False"

fun get_property :: "jsval \<Rightarrow> string \<Rightarrow> jsval" where
  "get_property (JObject ps) k = (case map_of ps k of None \<Rightarrow> JUndefined | Some v \<Rightarrow> v)"
| "get_property _ k = JUndefined"

text \<open>
  \<^verbatim>\<open>String.prototype.split\<close> with a one-character separator: the result is never empty,
  \<^verbatim>\<open>''.split(',')\<close> is \<^verbatim>\<open>['']\<close>.
\<close>

fun split :: "'a \<Rightarrow> 'a list \<Rightarrow> 'a list list" where
  "split sep [] = [[]]"
| "split sep (c # cs) =
     (if c = sep then [] # split sep cs
      else (case split sep cs of
              [] \<Rightarrow> [[c]]
            | p # ps \<Rightarrow> (c # p) # ps))"

text \<open>A template literal \<^verbatim>\<open>`${x}`\<close> for \<open>x\<close> a string or \<^verbatim>\<open>undefined\<close> (\<open>None\<close>).\<close>

fun template :: "string option \<Rightarrow> string" where
  "template None = ''undefined''"
| "template (Some s) = s"

fun bits_of_char :: "char \<Rightarrow> bool list" where
  "bits_of_char (Char b0 b1 b2 b3 b4 b5 b6 b7) = [b0, b1, b2, b3, b4, b5, b6, b7]"

fun char_of_bits :: "bool list \<Rightarrow> char" where
  "char_of_bits (b0 # b1 # b2 # b3 # b4 # b5 # b6 # b7 # _) = Char b0 b1 b2 b3 b4 b5 b6 b7"
| "char_of_bits _ = CHR 0x00"

fun nat_of_bits :: "bool list \<Rightarrow> nat" where
  "nat_of_bits [] = 0"
| "nat_of_bits (b # bs) = (if b then 1 else 0) + 2 * nat_of_bits bs"

text \<open>
  \<^verbatim>\<open>encodeURIComponent\<close>: the unreserved characters stay, every other byte of the UTF-8
  form becomes \<open>%XX\<close> in upper-case hexadecimal.
\<close>

definition uri_unreserved :: "char \<Rightarrow> bool" where
  "uri_unreserved c \<longleftrightarrow>
     c \<in> set ''ABCDEFGHIJKLMNOPQRSTUVWXYZabcdefghijklmnopqrstuvwxyz0123456789-_.!~*()''
     \<or> c = CHR 0x27"

definition upper_hex_digit :: "bool list \<Rightarrow> char" where
  "upper_hex_digit nibble = ''0123456789ABCDEF'' ! nat_of_bits (take 4 nibble)"

definition percent_encode :: "char \<Rightarrow> string" where
  "percent_encode c =
     (if uri_unreserved c then [c]
      else [CHR ''%'', upper_hex_digit (drop 4 (bits_of_char c)), upper_hex_digit (bits_of_char c)])"

definition encodeURIComponent :: "string \<Rightarrow> string" where
  "encodeURIComponent s = concat (map percent_encode s)"

subsection \<open>SHA-256 and HMAC, the primitives of \<^verbatim>\<open>node:crypto\<close> behind \<^verbatim>\<open>sign\<close>\<close>

text \<open>
  \<^verbatim>\<open>crypto.createHmac('sha256', secret)\<close>, \<^verbatim>\<open>update\<close> and \<^verbatim>\<open>digest('hex')\<close> are
  library code. They are modelled by FIPS 180-4 (SHA-256) and RFC 2104 (HMAC) over the
  bytes of the strings. A 32-bit word is kept as the list of its bits, least significant
  first, so that the digest of a concrete message is computed by rewriting; \<open>plus32\<close>
  is addition modulo \<open>2 ^ 32\<close> (the carry out of bit 31 is dropped). The round constants
  \<open>K256\<close> and the initial hash value \<open>H256\<close> are those of FIPS 180-4, in decimal.
\<close>

type_synonym u32 = "bool list"

type_synonym hstate = "u32 \<times> u32 \<times> u32 \<times> u32 \<times> u32 \<times> u32 \<times> u32 \<times> u32"

fun bits_of_int :: "nat \<Rightarrow> int \<Rightarrow> bool list" where
  "bits_of_int 0 n = []"
| "bits_of_int (Suc k) n = odd n # bits_of_int k (n div 2)"

fun bxor :: "u32 \<Rightarrow> u32 \<Rightarrow> u32" where
  "bxor (a # as) (b # bs) = (a \<noteq> b) # bxor as bs"
| "bxor _ _ = []"

fun band :: "u32 \<Rightarrow> u32 \<Rightarrow> u32" where
  "band (a # as) (b # bs) = (a \<and> b) # band as bs"
| "band _ _ = []"

fun bnot :: "u32 \<Rightarrow> u32" where
  "bnot (a # as) = (\<not> a) # bnot as"
| "bnot [] = []"

fun badd :: "bool \<Rightarrow> u32 \<Rightarrow> u32 \<Rightarrow> u32" where
  "badd c (a # as) (b # bs) =
     ((a \<noteq> b) \<noteq> c) # badd ((a \<and> b) \<or> (c \<and> (a \<noteq> b))) as bs"
| "badd c _ _ = []"

definition plus32 :: "u32 \<Rightarrow> u32 \<Rightarrow> u32" where
  "plus32 x y = badd False x y"

definition rotr :: "nat \<Rightarrow> u32 \<Rightarrow> u32" where
  "rotr n x = drop n x @ take n x"

definition shr :: "nat \<Rightarrow> u32 \<Rightarrow> u32" where
  "shr n x = drop n x @ map (\<lambda>b. False) (take n x)"

definition K256 :: "u32 list" where
  "K256 = map (bits_of_int 32)
    [1116352408, 1899447441, 3049323471, 3921009573, 961987163, 1508970993,
     2453635748, 2870763221, 3624381080, 310598401, 607225278, 1426881987,
     1925078388, 2162078206, 2614888103, 3248222580, 3835390401, 4022224774,
     264347078, 604807628, 770255983, 1249150122, 1555081692, 1996064986,
     2554220882, 2821834349, 2952996808, 3210313671, 3336571891, 3584528711,
     113926993, 338241895, 666307205, 773529912, 1294757372, 1396182291,
     1695183700, 1986661051, 2177026350, 2456956037, 2730485921, 2820302411,
     3259730800, 3345764771, 3516065817, 3600352804, 4094571909, 275423344,
     430227734, 506948616, 659060556, 883997877, 958139571, 1322822218,
     1537002063, 1747873779, 1955562222, 2024104815, 2227730452, 2361852424,
     2428436474, 2756734187, 3204031479, 3329325298]"

definition H256 :: hstate where
  "H256 = (bits_of_int 32 1779033703, bits_of_int 32 3144134277, bits_of_int 32 1013904242,
           bits_of_int 32 2773480762, bits_of_int 32 1359893119, bits_of_int 32 2600822924,
           bits_of_int 32 528734635, bits_of_int 32 1541459225)"

definition ch :: "u32 \<Rightarrow> u32 \<Rightarrow> u32 \<Rightarrow> u32" where
  "ch x y z = bxor (band x y) (band (bnot x) z)"

definition maj :: "u32 \<Rightarrow> u32 \<Rightarrow> u32 \<Rightarrow> u32" where
  "maj x y z = bxor (bxor (band x y) (band x z)) (band y z)"

definition bsig0 :: "u32 \<Rightarrow> u32" where
  "bsig0 x = bxor (bxor (rotr 2 x) (rotr 13 x)) (rotr 22 x)"

definition bsig1 :: "u32 \<Rightarrow> u32" where
  "bsig1 x = bxor (bxor (rotr 6 x) (rotr 11 x)) (rotr 25 x)"

definition ssig0 :: "u32 \<Rightarrow> u32" where
  "ssig0 x = bxor (bxor (rotr 7 x) (rotr 18 x)) (shr 3 x)"

definition ssig1 :: "u32 \<Rightarrow> u32" where
  "ssig1 x = bxor (bxor (rotr 17 x) (rotr 19 x)) (shr 10 x)"

definition next_w :: "u32 list \<Rightarrow> u32 list" where
  "next_w w = tl w @ [plus32 (plus32 (plus32 (ssig1 (w ! 14)) (w ! 9)) (ssig0 (w ! 1))) (w ! 0)]"

fun rotate_in :: "u32 \<Rightarrow> u32 \<Rightarrow> hstate \<Rightarrow> hstate" where
  "rotate_in t1 t2 (a, b, c, d, e, f, g, h) = (plus32 t1 t2, a, b, c, plus32 d t1, e, f, g)"

fun round :: "u32 \<Rightarrow> u32 \<Rightarrow> hstate \<Rightarrow> hstate" where
  "round k w (a, b, c, d, e, f, g, h) =
     rotate_in (plus32 (plus32 (plus32 (plus32 h (bsig1 e)) (ch e f g)) k) w)
               (plus32 (bsig0 a) (maj a b c)) (a, b, c, d, e, f, g, h)"

fun rounds :: "u32 list \<Rightarrow> u32 list \<Rightarrow> hstate \<Rightarrow> hstate" where
  "rounds [] w s = s"
| "rounds (k # ks) w s = rounds ks (next_w w) (round k (hd w) s)"

fun add8 :: "hstate \<Rightarrow> hstate \<Rightarrow> hstate" where
  "add8 (a, b, c, d, e, f, g, h) (a', b', c', d', e', f', g', h') =
     (plus32 a a', plus32 b b', plus32 c c', plus32 d d',
      plus32 e e', plus32 f f', plus32 g g', plus32 h h')"

definition compress :: "u32 list \<Rightarrow> hstate \<Rightarrow> hstate" where
  "compress block hs = add8 hs (rounds K256 block hs)"

fun be_words :: "string \<Rightarrow> u32 list" where
  "be_words (a # b # c # d # r) =
     (bits_of_char d @ bits_of_char c @ bits_of_char b @ bits_of_char a) # be_words r"
| "be_words _ = []"

definition be_bytes :: "u32 \<Rightarrow> string" where
  "be_bytes w = [char_of_bits (drop 24 w), char_of_bits (drop 16 w),
                 char_of_bits (drop 8 w), char_of_bits w]"

definition length_bytes :: "nat \<Rightarrow> string" where
  "length_bytes n = map (\<lambda>i. char_of_bits (drop (8 * i) (bits_of_int 64 (8 * int n)))) [7, 6, 5, 4, 3, 2, 1, 0]"

definition pad :: "string \<Rightarrow> string" where
  "pad m = m @ [CHR 0x80] @ replicate ((119 - length m mod 64) mod 64) (CHR 0x00)
             @ length_bytes (length m)"

fun chop :: "nat \<Rightarrow> nat \<Rightarrow> 'a list \<Rightarrow> 'a list list" where
  "chop 0 n xs = []"
| "chop (Suc k) n xs = take n xs # chop k n (drop n xs)"

definition blocks :: "u32 list \<Rightarrow> u32 list list" where
  "blocks ws = chop (length ws div 16) 16 ws"

fun digest :: "hstate \<Rightarrow> string" where
  "digest (a, b, c, d, e, f, g, h) = concat (map be_bytes [a, b, c, d, e, f, g, h])"

definition sha256 :: "string \<Rightarrow> string" where
  "sha256 m = digest (fold compress (blocks (be_words (pad m))) H256)"

definition xor_byte :: "char \<Rightarrow> char \<Rightarrow> char" where
  "xor_byte p c = char_of_bits (bxor (bits_of_char c) (bits_of_char p))"

definition hmac_sha256 :: "string \<Rightarrow> string \<Rightarrow> string" where
  "hmac_sha256 key msg =
     (let k0 = (if 64 < length key then sha256 key else key);
          k = k0 @ replicate (64 - length k0) (CHR 0x00)
      in sha256 (map (xor_byte (CHR 0x5C)) k @ sha256 (map (xor_byte (CHR 0x36)) k @ msg)))"

definition hex_digit :: "bool list \<Rightarrow> char" where
  "hex_digit nibble = ''0123456789abcdef'' ! nat_of_bits (take 4 nibble)"

definition hex :: "string \<Rightarrow> string" where
  "hex bytes = concat (map (\<lambda>c. [hex_digit (drop 4 (bits_of_char c)), hex_digit (bits_of_char c)]) bytes)"

subsection \<open>\<^verbatim>\<open>JSON.parse\<close>\<close>

text \<open>
  \<^verbatim>\<open>JSON.parse\<close> is a built-in. It is modelled by a recursive-descent parser of the JSON
  grammar (ECMA-404): a syntax error is the thrown \<open>SyntaxError\<close>. The recursion is on a
  counter that goes down by one at each nested value and at each further element or
  member; it starts above the length of the text, and every value, element and member
  takes at least one character.
\<close>

definition is_ws :: "char \<Rightarrow> bool" where
  "is_ws c \<longleftrightarrow> c \<in> set [CHR 0x20, CHR 0x09, CHR 0x0A, CHR 0x0D]"

definition skip_ws :: "string \<Rightarrow> string" where
  "skip_ws s = dropWhile is_ws s"

definition is_digit :: "char \<Rightarrow> bool" where
  "is_digit c \<longleftrightarrow> c \<in> set ''0123456789''"

fun strip_prefix :: "'a list \<Rightarrow> 'a list \<Rightarrow> 'a list option" where
  "strip_prefix [] ys = Some ys"
| "strip_prefix (x # xs) [] = None"
| "strip_prefix (x # xs) (y # ys) = (if x = y then strip_prefix xs ys else None)"

definition digits_value :: "string \<Rightarrow> int" where
  "digits_value ds = foldl (\<lambda>a c. 10 * a + (of_char c - 48)) 0 ds"

definition hex_value :: "char \<Rightarrow> int option" where
  "hex_value c =
     (if is_digit c then Some (of_char c - 48)
      else if c \<in> set ''abcdef'' then Some (of_char c - 87)
      else if c \<in> set ''ABCDEF'' then Some (of_char c - 55)
      else None)"

fun hex4 :: "string \<Rightarrow> int option" where
  "hex4 [a, b, c, d] =
     (case hex_value a of None \<Rightarrow> None | Some w \<Rightarrow>
     (case hex_value b of None \<Rightarrow> None | Some x \<Rightarrow>
     (case hex_value c of None \<Rightarrow> None | Some y \<Rightarrow>
     (case hex_value d of None \<Rightarrow> None | Some z \<Rightarrow>
        Some (((w * 16 + x) * 16 + y) * 16 + z)))))"
| "hex4 _ = None"

definition utf8 :: "int \<Rightarrow> string" where
  "utf8 n =
     (if n < 0x80 then [char_of n]
      else if n < 0x800 then [char_of (0xC0 + n div 0x40), char_of (0x80 + n mod 0x40)]
      else if n < 0x10000 then
        [char_of (0xE0 + n div 0x1000), char_of (0x80 + n div 0x40 mod 0x40),
         char_of (0x80 + n mod 0x40)]
      else
        [char_of (0xF0 + n div 0x40000), char_of (0x80 + n div 0x1000 mod 0x40),
         char_of (0x80 + n div 0x40 mod 0x40), char_of (0x80 + n mod 0x40)])"

definition simple_escape :: "char \<Rightarrow> char option" where
  "simple_escape e =
     (if e = CHR 0x22 \<or> e = CHR 0x5C \<or> e = CHR ''/'' then Some e
      else if e = CHR ''b'' then Some (CHR 0x08)
      else if e = CHR ''f'' then Some (CHR 0x0C)
      else if e = CHR ''n'' then Some (CHR 0x0A)
      else if e = CHR ''r'' then Some (CHR 0x0D)
      else if e = CHR ''t'' then Some (CHR 0x09)
      else None)"

text \<open>The low half of a surrogate pair written as a second \<open>\uXXXX\<close> escape.\<close>

definition low_surrogate_after :: "int \<Rightarrow> string \<Rightarrow> int option" where
  "low_surrogate_after hi s =
     (if 0xD800 \<le> hi \<and> hi < 0xDC00 then
        (case strip_prefix [CHR 0x5C, CHR ''u''] s of
           None \<Rightarrow> None
         | Some r \<Rightarrow>
            (case hex4 (take 4 r) of
               None \<Rightarrow> None
             | Some lo \<Rightarrow> if 0xDC00 \<le> lo \<and> lo < 0xE000 then Some lo else None))
      else None)"

definition prepend :: "string \<Rightarrow> (string \<times> string) option \<Rightarrow> (string \<times> string) option" where
  "prepend xs res = (case res of None \<Rightarrow> None | Some (s, rest) \<Rightarrow> Some (xs @ s, rest))"

text \<open>The characters of a string literal after its opening quote, and what follows it.\<close>

fun parse_chars :: "string \<Rightarrow> (string \<times> string) option" where
  "parse_chars [] = None"
| "parse_chars (c # cs) =
     (if c = CHR 0x22 then Some ([], cs)
      else if c = CHR 0x5C then
        (case cs of
           [] \<Rightarrow> None
         | e # r \<Rightarrow>
            if e = CHR ''u'' then
              (case hex4 (take 4 r) of
                 None \<Rightarrow> None
               | Some hi \<Rightarrow>
                  (case low_surrogate_after hi (drop 4 r) of
                     Some lo \<Rightarrow>
                       prepend (utf8 (0x10000 + (hi - 0xD800) * 0x400 + (lo - 0xDC00)))
                         (parse_chars (drop 10 r))
                   | None \<Rightarrow> prepend (utf8 hi) (parse_chars (drop 4 r))))
            else
              (case simple_escape e of
                 None \<Rightarrow> None
               | Some x \<Rightarrow> prepend [x] (parse_chars r)))
      else if (of_char c :: nat) < 0x20 then None
      else prepend [c] (parse_chars cs))"

definition parse_fraction :: "string \<Rightarrow> (string \<times> string) option" where
  "parse_fraction s =
     (case s of
        [] \<Rightarrow> Some ([], s)
      | c # r \<Rightarrow>
         if c = CHR ''.'' then
           (if takeWhile is_digit r = [] then None
            else Some (takeWhile is_digit r, dropWhile is_digit r))
         else Some ([], s))"

definition parse_sign :: "string \<Rightarrow> int \<times> string" where
  "parse_sign s =
     (case s of
        [] \<Rightarrow> (1, s)
      | c # r \<Rightarrow> if c = CHR ''-'' then (- 1, r) else if c = CHR ''+'' then (1, r) else (1, s))"

definition parse_exponent :: "string \<Rightarrow> (int \<times> string) option" where
  "parse_exponent s =
     (case s of
        [] \<Rightarrow> Some (0, s)
      | c # r \<Rightarrow>
         if c = CHR ''e'' \<or> c = CHR ''E'' then
           (case parse_sign r of
              (sg, r1) \<Rightarrow>
                if takeWhile is_digit r1 = [] then None
                else Some (sg * digits_value (takeWhile is_digit r1), dropWhile is_digit r1))
         else Some (0, s))"

definition parse_number :: "string \<Rightarrow> (jsval \<times> string) option" where
  "parse_number s =
     (let neg = (case s of [] \<Rightarrow> False | c # r \<Rightarrow> c = CHR ''-'');
          s1 = (if neg then tl s else s);
          ds = takeWhile is_digit s1
      in if ds = [] \<or> (hd ds = CHR ''0'' \<and> 1 < length ds) then None
         else
           (case parse_fraction (dropWhile is_digit s1) of
              None \<Rightarrow> None
            | Some (fs, s3) \<Rightarrow>
               (case parse_exponent s3 of
                  None \<Rightarrow> None
                | Some (ex, s4) \<Rightarrow>
                   Some (JNumber ((if neg then - 1 else 1) * digits_value (ds @ fs))
                                 (ex - int (length fs)), s4))))"

text \<open>A later member with the same name replaces the earlier one.\<close>

fun put :: "'k \<Rightarrow> 'v \<Rightarrow> ('k \<times> 'v) list \<Rightarrow> ('k \<times> 'v) list" where
  "put k v [] = [(k, v)]"
| "put k v ((k', v') # ps) = (if k = k' then (k, v) # ps else (k', v') # put k v ps)"

fun parse_value :: "nat \<Rightarrow> string \<Rightarrow> (jsval \<times> string) option"
  and parse_elements :: "nat \<Rightarrow> string \<Rightarrow> (jsval list \<times> string) option"
  and parse_members :: "nat \<Rightarrow> string \<Rightarrow> ((string \<times> jsval) list \<times> string) option"
where
  "parse_value 0 s = None"
| "parse_value (Suc n) s =
     (case skip_ws s of
        [] \<Rightarrow> None
      | c # r \<Rightarrow>
         if c = CHR ''{'' then
           (case skip_ws r of
              [] \<Rightarrow> None
            | d # r' \<Rightarrow>
               if d = CHR ''}'' then Some (JObject [], r')
               else
                 (case parse_members n (d # r') of
                    None \<Rightarrow> None
                  | Some (ms, r'') \<Rightarrow> Some (JObject (foldl (\<lambda>ps (k, v). put k v ps) [] ms), r'')))
         else if c = CHR ''['' then
           (case skip_ws r of
              [] \<Rightarrow> None
            | d # r' \<Rightarrow>
               if d = CHR '']'' then Some (JArray [], r')
               else
                 (case parse_elements n (d # r') of
                    None \<Rightarrow> None
                  | Some (vs, r'') \<Rightarrow> Some (JArray vs, r'')))
         else if c = CHR 0x22 then
           (case parse_chars r of None \<Rightarrow> None | Some (str, r') \<Rightarrow> Some (JString str, r'))
         else
           (case strip_prefix ''true'' (c # r) of
              Some r' \<Rightarrow> Some (JBool True, r')
            | None \<Rightarrow>
               (case strip_prefix ''false'' (c # r) of
                  Some r' \<Rightarrow> Some (JBool False, r')
                | None \<Rightarrow>
                   (case strip_prefix ''null'' (c # r) of
                      Some r' \<Rightarrow> Some (JNull, r')
                    | None \<Rightarrow> parse_number (c # r)))))"
| "parse_elements 0 s = None"
| "parse_elements (Suc n) s =
     (case parse_value n s of
        None \<Rightarrow> None
      | Some (v, r) \<Rightarrow>
         (case skip_ws r of
            [] \<Rightarrow> None
          | c # r' \<Rightarrow>
             if c = CHR '','' then
               (case parse_elements n r' of
                  None \<Rightarrow> None
                | Some (vs, r'') \<Rightarrow> Some (v # vs, r''))
             else if c = CHR '']'' then Some ([v], r')
             else None))"
| "parse_members 0 s = None"
| "parse_members (Suc n) s =
     (case skip_ws s of
        [] \<Rightarrow> None
      | q # r \<Rightarrow>
         if q \<noteq> CHR 0x22 then None
         else
           (case parse_chars r of
              None \<Rightarrow> None
            | Some (k, r1) \<Rightarrow>
               (case skip_ws r1 of
                  [] \<Rightarrow> None
                | c # r2 \<Rightarrow>
                   if c \<noteq> CHR '':'' then None
                   else
                     (case parse_value n r2 of
                        None \<Rightarrow> None
                      | Some (v, r3) \<Rightarrow>
                         (case skip_ws r3 of
                            [] \<Rightarrow> None
                          | d # r4 \<Rightarrow>
                             if d = CHR '','' then
                               (case parse_members n r4 of
                                  None \<Rightarrow> None
                                | Some (ms, r5) \<Rightarrow> Some ((k, v) # ms, r5))
                             else if d = CHR ''}'' then Some ([(k, v)], r4)
                             else None)))))"

definition JSON_parse :: "string \<Rightarrow> js_error + jsval" where
  "JSON_parse text =
     (case parse_value (Suc (length text)) text of
        None \<Rightarrow> Inl SyntaxError
      | Some (v, rest) \<Rightarrow> if skip_ws rest = [] then Inr v else Inl SyntaxError)"

subsection \<open>The code of the repository\<close>

text \<open>
  \<^verbatim>\<open>sign\<close>: the hexadecimal HMAC-SHA256 of \<open>dataString\<close> keyed by \<open>secret\<close>.
\<close>

definition sign :: "string \<Rightarrow> string \<Rightarrow> string" where
  "sign secret dataString = hex (hmac_sha256 secret dataString)"

text \<open>
  \<^verbatim>\<open>parseNamedParametersString\<close>: \<^verbatim>\<open>input.split(',').reduce(..., {})\<close>. The object
  built is a map from keys to values; a value is \<open>None\<close> when \<^verbatim>\<open>pair.split('=')\<close> has
  no second element (the destructured \<^verbatim>\<open>value\<close> is \<^verbatim>\<open>undefined\<close>). \<^verbatim>\<open>!key\<close> holds of
  the empty string.
\<close>

type_synonym parameters = "string \<rightharpoonup> string option"

definition parseNamedParametersString :: "string \<Rightarrow> parameters" where
  "parseNamedParametersString input =
     foldl (\<lambda>acc pair.
              case split (CHR ''='') pair of
                [] \<Rightarrow> acc
              | key # rest \<Rightarrow>
                 if key = [] then acc
                 else acc(key \<mapsto> (case rest of [] \<Rightarrow> None | value # _ \<Rightarrow> Some value)))
           Map.empty (split (CHR '','') input)"

text \<open>
  Reading \<^verbatim>\<open>parameters.t\<close> or \<^verbatim>\<open>parameters.v1\<close>: \<^verbatim>\<open>undefined\<close> (\<open>None\<close>) when the key
  is absent or bound to \<^verbatim>\<open>undefined\<close>.
\<close>

definition param :: "parameters \<Rightarrow> string \<Rightarrow> string option" where
  "param parameters k = (case parameters k of None \<Rightarrow> None | Some v \<Rightarrow> v)"

text \<open>
  Modelled from the spec: \<^verbatim>\<open>isObject\<close> is imported from \<^verbatim>\<open>@noaignite/utils\<close> and is
  not among the sources; the spec calls the accepted body "an object-like structure
  carrying a string field payload". It is taken to hold of objects. Whether it also holds
  of arrays makes no difference below, since an array has no property \<open>payload\<close>.
\<close>

fun isObject :: "jsval \<Rightarrow> bool" where
  "isObject (JObject ps) = True"
| "isObject _ = False"

text \<open>
  \<^verbatim>\<open>parseRawBody\<close> returns the body narrowed to \<^verbatim>\<open>{ payload: string }\<close>, or \<^verbatim>\<open>null\<close>
  (\<open>None\<close>).
\<close>

record body =
  payload :: string

definition parseRawBody :: "jsval \<Rightarrow> body option" where
  "parseRawBody rawBody =
     (if truthy rawBody \<and> isObject rawBody \<and> has_property ''payload'' rawBody then
        (case get_property rawBody ''payload'' of
           JString p \<Rightarrow> Some \<lparr>payload = p\<rparr>
         | _ \<Rightarrow> None)
      else None)"

text \<open>
  The adapter. A function of the adapter returns \<open>Inr\<close> its value or \<open>Inl\<close> what it
  throws (for \<^verbatim>\<open>getRawBody\<close>: the awaited value, or the rejection). \<^verbatim>\<open>getHeader\<close>
  returns \<open>None\<close> for \<^verbatim>\<open>null\<close> and \<^verbatim>\<open>undefined\<close>.
\<close>

record 'req adapter =
  isRequestMethodPost :: "('req \<Rightarrow> js_error + bool) option"
  getHeader :: "'req \<Rightarrow> string \<Rightarrow> js_error + string option"
  getRawBody :: "'req \<Rightarrow> js_error + jsval"

record 'req config =
  adapter :: "'req adapter"
  secret :: "string option"

text \<open>
  The result: \<^verbatim>\<open>[{ message }]\<close> is \<open>Errors\<close> of the list, \<^verbatim>\<open>[undefined, payloadParsed]\<close>
  is \<open>Data\<close>. The promise returned by the async function is \<open>Resolved\<close> with the result,
  or \<open>Rejected\<close> with what was thrown.
\<close>

record webhook_error =
  message :: string

datatype results = Errors "webhook_error list" | Data jsval

datatype outcome = Resolved results | Rejected js_error

text \<open>What a call does besides returning: the adapter functions called and the console.\<close>

datatype effect = CallIsRequestMethodPost | CallGetRawBody | CallGetHeader string
  | ConsoleError string

text \<open>
  \<^verbatim>\<open>createGetCentraWebhookEvents(config)(request)\<close>: the outcome of the promise and the
  effects in the order they happen.
\<close>

definition createGetCentraWebhookEvents :: "'req config \<Rightarrow> 'req \<Rightarrow> outcome \<times> effect list" where
  "createGetCentraWebhookEvents config request =
     (let methodCheck =
            (case isRequestMethodPost (adapter config) of
               None \<Rightarrow> (Inr True, [])
             | Some f \<Rightarrow> (f request, [CallIsRequestMethodPost]))
      in case methodCheck of
           (Inl thrown, log1) \<Rightarrow> (Rejected thrown, log1)
         | (Inr False, log1) \<Rightarrow>
             (Resolved (Errors [\<lparr>message = ''Invalid request method''\<rparr>]), log1)
         | (Inr True, log1) \<Rightarrow>
             (case getRawBody (adapter config) request of
                Inl thrown \<Rightarrow> (Rejected thrown, log1 @ [CallGetRawBody])
              | Inr rawBody \<Rightarrow>
                 (case parseRawBody rawBody of
                    None \<Rightarrow>
                      (Resolved (Errors [\<lparr>message = ''Invalid request body''\<rparr>]),
                       log1 @ [CallGetRawBody])
                  | Some body \<Rightarrow>
                     (let signatureCheck =
                            (case secret config of
                               None \<Rightarrow> (Inr None, [])
                             | Some s \<Rightarrow>
                                if s = [] then (Inr None, [])
                                else
                                  (case getHeader (adapter config) request ''x-centra-signature'' of
                                     Inl thrown \<Rightarrow> (Inl thrown, [CallGetHeader ''x-centra-signature''])
                                   | Inr None \<Rightarrow>
                                       (Inr (Some \<lparr>message = ''No signature''\<rparr>),
                                        [CallGetHeader ''x-centra-signature''])
                                   | Inr (Some signature) \<Rightarrow>
                                       if signature = [] then
                                         (Inr (Some \<lparr>message = ''No signature''\<rparr>),
                                          [CallGetHeader ''x-centra-signature''])
                                       else
                                         (let parameters = parseNamedParametersString signature
                                          in if Some (sign s (template (param parameters ''t'')
                                                        @ ''.payload='' @ encodeURIComponent (payload body)))
                                                \<noteq> param parameters ''v1''
                                             then (Inr (Some \<lparr>message = ''Invalid signature''\<rparr>),
                                                   [CallGetHeader ''x-centra-signature'',
                                                    ConsoleError ''Invalid signature''])
                                             else (Inr None, [CallGetHeader ''x-centra-signature'']))))
                      in case signatureCheck of
                           (Inl thrown, log2) \<Rightarrow> (Rejected thrown, log1 @ [CallGetRawBody] @ log2)
                         | (Inr (Some err), log2) \<Rightarrow>
                             (Resolved (Errors [err]), log1 @ [CallGetRawBody] @ log2)
                         | (Inr None, log2) \<Rightarrow>
                             (case JSON_parse (payload body) of
                                Inl thrown \<Rightarrow> (Rejected thrown, log1 @ [CallGetRawBody] @ log2)
                              | Inr payloadParsed \<Rightarrow>
                                 (Resolved (Data payloadParsed), log1 @ [CallGetRawBody] @ log2))))))"

text \<open>
  \<^verbatim>\<open>nextPagesRouterAdapter\<close>, over the part of a \<^verbatim>\<open>NextApiRequest\<close> it reads
  (\<open>http_method\<close> is \<^verbatim>\<open>request.method\<close>). A header of Node's \<^verbatim>\<open>IncomingHttpHeaders\<close> is a
  string or an array of strings.
\<close>

datatype header = Single string | Multiple "string list"

record next_api_request =
  http_method :: string
  headers :: "string \<rightharpoonup> header"
  body :: jsval

definition nextPagesRouterAdapter :: "next_api_request adapter" where
  "nextPagesRouterAdapter =
     \<lparr>isRequestMethodPost = Some (\<lambda>request. Inr (http_method request = ''POST'')),
      getHeader = (\<lambda>request headerKey.
         case headers request headerKey of
           None \<Rightarrow> Inr None
         | Some (Single h) \<Rightarrow> Inr (Some h)
         | Some (Multiple hs) \<Rightarrow> Inl (Error ''Multiple headers with same key passed.'')),
      getRawBody = (\<lambda>req. Inr (body req))\<rparr>"

subsection \<open>Notions used to state the properties\<close>

text \<open>
  The key of a pair is its text before the first \<open>=\<close>; its value is the text between
  the first and the second \<open>=\<close> (to the end when there is no second one), and
  \<^verbatim>\<open>undefined\<close> (\<open>None\<close>) when the pair has no \<open>=\<close>.
\<close>

definition pair_key :: "string \<Rightarrow> string" where
  "pair_key pair = takeWhile (\<lambda>c. c \<noteq> CHR ''='') pair"

definition pair_value :: "string \<Rightarrow> string option" where
  "pair_value pair =
     (if CHR ''='' \<in> set pair
      then Some (takeWhile (\<lambda>c. c \<noteq> CHR ''='') (tl (dropWhile (\<lambda>c. c \<noteq> CHR ''='') pair)))
      else None)"

text \<open>One step of the \<^verbatim>\<open>reduce\<close>: a pair without a key leaves the object as it is.\<close>

definition add_pair :: "parameters \<Rightarrow> string \<Rightarrow> parameters" where
  "add_pair acc pair = (if pair_key pair = [] then acc else acc(pair_key pair \<mapsto> pair_value pair))"

text \<open>A list of pairs written with commas between them.\<close>

fun join :: "'a \<Rightarrow> 'a list list \<Rightarrow> 'a list" where
  "join sep [] = []"
| "join sep [x] = x"
| "join sep (x # y # r) = x @ sep # join sep (y # r)"

text \<open>
  A pair that is not one of the two the verification reads, and a header \<open>h'\<close> that is
  the header \<open>h\<close> with one more pair \<open>e\<close>: in front, at the end, or after a comma.
\<close>

definition unknown_pair :: "string \<Rightarrow> bool" where
  "unknown_pair e \<longleftrightarrow> CHR '','' \<notin> set e \<and> pair_key e \<noteq> ''t'' \<and> pair_key e \<noteq> ''v1''"

definition with_extra_pair :: "string \<Rightarrow> string \<Rightarrow> string \<Rightarrow> bool" where
  "with_extra_pair e h h' \<longleftrightarrow>
     h' = e @ CHR '','' # h \<or> h' = h @ CHR '','' # e
     \<or> (\<exists>a b. h = a @ CHR '','' # b \<and> h' = a @ CHR '','' # e @ CHR '','' # b)"

text \<open>The configuration whose adapter finds \<open>h\<close> in the header \<open>x-centra-signature\<close>.\<close>

definition with_signature_header :: "'req config \<Rightarrow> string option \<Rightarrow> 'req config" where
  "with_signature_header config h =
     config\<lparr>adapter := (adapter config)\<lparr>getHeader :=
       (\<lambda>request headerKey.
          if headerKey = ''x-centra-signature'' then Inr h
          else getHeader (adapter config) request headerKey)\<rparr>\<rparr>"

text \<open>
  A request passes the method check when no predicate is configured or the predicate
  returns \<^verbatim>\<open>true\<close>. A raw body carries the string \<open>p\<close> in its field \<open>payload\<close> when it is
  an object whose property \<open>payload\<close> is that string.
\<close>

definition passes_method_check :: "'req config \<Rightarrow> 'req \<Rightarrow> bool" where
  "passes_method_check config request \<longleftrightarrow>
     (case isRequestMethodPost (adapter config) of
        None \<Rightarrow> True
      | Some f \<Rightarrow> f request = Inr True)"

definition has_string_payload :: "jsval \<Rightarrow> string \<Rightarrow> bool" where
  "has_string_payload rawBody p \<longleftrightarrow>
     (case rawBody of
        JObject ps \<Rightarrow> map_of ps ''payload'' = Some (JString p)
      | _ \<Rightarrow> False)"

definition carries_string_payload :: "jsval \<Rightarrow> bool" where
  "carries_string_payload rawBody \<longleftrightarrow>
     (case rawBody of
        JObject ps \<Rightarrow> (case map_of ps ''payload'' of Some (JString p) \<Rightarrow> True | _ \<Rightarrow> False)
      | _ \<Rightarrow> False)"

text \<open>The effects of the method check, when it does not throw.\<close>

definition method_effects :: "'req config \<Rightarrow> effect list" where
  "method_effects config =
     (case isRequestMethodPost (adapter config) of
        None \<Rightarrow> []
      | Some f \<Rightarrow> [CallIsRequestMethodPost])"

text \<open>A secret is in use when it is configured and not the empty string.\<close>

definition secret_in_use :: "'req config \<Rightarrow> string \<Rightarrow> bool" where
  "secret_in_use config s \<longleftrightarrow> secret config = Some s \<and> s \<noteq> []"

text \<open>A configuration and a request of the Pages Router, for the examples.\<close>

definition pages_config :: "string option \<Rightarrow> next_api_request config" where
  "pages_config s = \<lparr>adapter = nextPagesRouterAdapter, secret = s\<rparr>"

definition pages_request :: "string \<Rightarrow> string option \<Rightarrow> jsval \<Rightarrow> next_api_request" where
  "pages_request m signature raw =
     \<lparr>http_method = m,
      headers = (case signature of
                   None \<Rightarrow> Map.empty
                 | Some h \<Rightarrow> [''x-centra-signature'' \<mapsto> Single h]),
      body = raw\<rparr>"

text \<open>The adapter functions do not throw on a request.\<close>

definition adapter_returns :: "'req config \<Rightarrow> 'req \<Rightarrow> bool" where
  "adapter_returns config request \<longleftrightarrow>
     (case isRequestMethodPost (adapter config) of
        None \<Rightarrow> True
      | Some f \<Rightarrow> (case f request of Inl thrown \<Rightarrow> False | Inr ok \<Rightarrow> True))
     \<and> (case getRawBody (adapter config) request of Inl thrown \<Rightarrow> False | Inr rawBody \<Rightarrow> True)
     \<and> (case getHeader (adapter config) request ''x-centra-signature'' of
           Inl thrown \<Rightarrow> False
         | Inr signature \<Rightarrow> True)"

text \<open>The closed set of messages of the code.\<close>

definition messages :: "string list" where
  "messages = [''Invalid request method'', ''Invalid request body'', ''No signature'',
               ''Invalid signature'']"

text \<open>
  All checks pass on a request whose payload is \<open>p\<close>: the method check, the body check,
  and, when a secret is in use, the signature check (the header is a string that is not
  empty and its \<open>v1\<close> is the digest of \<open>t\<close>, \<open>.payload=\<close> and the URI-encoded payload).
\<close>

definition signature_accepted :: "'req config \<Rightarrow> 'req \<Rightarrow> string \<Rightarrow> bool" where
  "signature_accepted config request p \<longleftrightarrow>
     (case secret config of
        None \<Rightarrow> True
      | Some s \<Rightarrow>
         s = [] \<or>
         (case getHeader (adapter config) request ''x-centra-signature'' of
            Inl thrown \<Rightarrow> False
          | Inr None \<Rightarrow> False
          | Inr (Some h) \<Rightarrow>
             h \<noteq> [] \<and>
             param (parseNamedParametersString h) ''v1''
               = Some (sign s (template (param (parseNamedParametersString h) ''t'')
                                @ ''.payload='' @ encodeURIComponent p))))"

definition all_checks_pass :: "'req config \<Rightarrow> 'req \<Rightarrow> string \<Rightarrow> bool" where
  "all_checks_pass config request p \<longleftrightarrow>
     passes_method_check config request
     \<and> (case getRawBody (adapter config) request of
          Inl thrown \<Rightarrow> False
        | Inr rawBody \<Rightarrow> has_string_payload rawBody p)
     \<and> signature_accepted config request p"

section \<open>Properties\<close>

subsection \<open>Splitting\<close>

lemma split_not_Nil: "split sep xs \<noteq> []"
  by (induction xs) (auto split: list.splits)

lemma split_no_sep: "sep \<notin> set xs \<Longrightarrow> split sep xs = [xs]"
  by (induction xs) auto

lemma split_append_sep: "split sep (xs @ sep # ys) = split sep xs @ split sep ys"
proof (induction xs)
  case Nil
  show ?case by simp
next
  case (Cons c cs)
  then show ?case
    using split_not_Nil [of sep cs] by (auto split: list.splits)
qed

lemma split_first:
  "split sep xs = takeWhile (\<lambda>c. c \<noteq> sep) xs
     # (if sep \<in> set xs then split sep (tl (dropWhile (\<lambda>c. c \<noteq> sep) xs)) else [])"
  by (induction xs) (auto split: list.splits)

lemma split_case:
  "(case split sep xs of [] \<Rightarrow> a | v # r \<Rightarrow> f v r) =
     f (takeWhile (\<lambda>c. c \<noteq> sep) xs)
       (if sep \<in> set xs then split sep (tl (dropWhile (\<lambda>c. c \<noteq> sep) xs)) else [])"
  by (subst split_first) simp

subsection \<open>The parameter parser as a fold\<close>

lemma add_pair_eq:
  "(case split (CHR ''='') pair of [] \<Rightarrow> acc
    | key # rest \<Rightarrow> if key = [] then acc
         else acc(key \<mapsto> (case rest of [] \<Rightarrow> None | value # _ \<Rightarrow> Some value)))
   = add_pair acc pair"
  by (simp add: split_case add_pair_def pair_key_def pair_value_def)

lemma parse_fold:
  "parseNamedParametersString input = foldl add_pair Map.empty (split (CHR '','') input)"
  by (simp add: parseNamedParametersString_def add_pair_eq)
lemma add_pair_apply:
  "k \<noteq> [] \<Longrightarrow> add_pair m p k = (if pair_key p = k then Some (pair_value p) else m k)"
  by (auto simp: add_pair_def)

lemma foldl_add_pair_lookup:
  "k \<noteq> [] \<Longrightarrow> foldl add_pair m ps k =
     (case filter (\<lambda>p. pair_key p = k) ps of [] \<Rightarrow> m k | q # qs \<Rightarrow> Some (pair_value (last (q # qs))))"
proof (induction ps arbitrary: m)
  case Nil
  show ?case by simp
next
  case (Cons p ps)
  show ?case
    by (simp add: Cons.IH [OF Cons.prems] add_pair_apply [OF Cons.prems] split: list.splits)
qed

lemma foldl_add_pair_empty_key: "m [] = None \<Longrightarrow> foldl add_pair m ps [] = None"
  by (induction ps arbitrary: m) (simp_all add: add_pair_def)

lemma add_pair_map_add: "add_pair (m ++ n) p = m ++ add_pair n p"
  by (simp add: add_pair_def)

lemma foldl_add_pair_map_add: "foldl add_pair (m ++ n) ps = m ++ foldl add_pair n ps"
  by (induction ps arbitrary: n) (simp_all add: add_pair_map_add)

lemma parse_lookup:
  "k \<noteq> [] \<Longrightarrow> parseNamedParametersString input k =
     (case filter (\<lambda>p. pair_key p = k) (split (CHR '','') input) of
        [] \<Rightarrow> None | q # qs \<Rightarrow> Some (pair_value (last (q # qs))))"
  by (simp add: parse_fold foldl_add_pair_lookup)

lemma parse_empty_key: "parseNamedParametersString input [] = None"
  by (simp add: parse_fold foldl_add_pair_empty_key)

lemma parse_append:
  "parseNamedParametersString (a @ CHR '','' # b)
     = parseNamedParametersString a ++ parseNamedParametersString b"
proof -
  have "parseNamedParametersString (a @ CHR '','' # b)
          = foldl add_pair (parseNamedParametersString a ++ Map.empty) (split (CHR '','') b)"
    by (simp add: parse_fold split_append_sep)
  then show ?thesis
    by (simp only: foldl_add_pair_map_add parse_fold)
qed
lemma nat_of_bits_less: "nat_of_bits bs < 2 ^ length bs"
  by (induction bs) auto

lemma hex_digit_in: "hex_digit nibble \<in> set ''0123456789abcdef''"
proof -
  have "nat_of_bits (take 4 nibble) < 2 ^ length (take 4 nibble)"
    by (rule nat_of_bits_less)
  also have "\<dots> \<le> 2 ^ 4"
    by (rule power_increasing) simp_all
  finally have "nat_of_bits (take 4 nibble) < length ''0123456789abcdef''"
    by simp
  then show ?thesis
    unfolding hex_digit_def by (rule nth_mem)
qed

lemma hex_chars: "set (hex bytes) \<subseteq> set ''0123456789abcdef''"
  unfolding hex_def using hex_digit_in by auto





lemma sign_no_separator:
  "CHR '','' \<notin> set (sign s d)" "CHR ''='' \<notin> set (sign s d)"
  using hex_chars [of "hmac_sha256 s d"] unfolding sign_def by auto
subsection \<open>Parameters of the signature header\<close>

lemma split_join:
  "pairs \<noteq> [] \<Longrightarrow> \<forall>p \<in> set pairs. sep \<notin> set p \<Longrightarrow> split sep (join sep pairs) = pairs"
proof (induction sep pairs rule: join.induct)
  case (1 sep)
  then show ?case by simp
next
  case (2 sep x)
  then show ?case by (simp add: split_no_sep)
next
  case (3 sep x y r)
  then show ?case by (simp add: split_append_sep split_no_sep)
qed

lemma parse_single:
  "CHR '','' \<notin> set pair \<Longrightarrow> parseNamedParametersString pair = add_pair Map.empty pair"
  by (simp add: parse_fold split_no_sep)

lemma param_extra_pair:
  assumes "unknown_pair e" and "with_extra_pair e h h'" and "k = ''t'' \<or> k = ''v1''"
  shows "param (parseNamedParametersString h') k = param (parseNamedParametersString h) k"
proof -
  have "add_pair Map.empty e k = None"
    using assms(1,3) by (auto simp: add_pair_def unknown_pair_def)
  then have e: "parseNamedParametersString e k = None"
    using assms(1) by (simp add: parse_single unknown_pair_def)
  have "parseNamedParametersString h' k = parseNamedParametersString h k"
    using assms(2) e unfolding with_extra_pair_def
    by (auto simp: parse_append map_add_def split: option.splits)
  then show ?thesis by (simp add: param_def)
qed

text \<open>
  C10. When the header repeats a key, the parser binds the key to the value of its last
  occurrence: for every list of pairs written with commas between them, each key of the
  result carries the value of the last pair naming it; pairs whose key is the empty
  string are dropped, so the empty string is never a key.
\<close>

theorem parse_last_pair_wins:
  assumes "\<forall>p \<in> set pairs. CHR '','' \<notin> set p"
  shows "parseNamedParametersString (join (CHR '','') pairs) k =
           (if k = [] then None
            else case filter (\<lambda>p. pair_key p = k) pairs of
                   [] \<Rightarrow> None
                 | q # qs \<Rightarrow> Some (pair_value (last (q # qs))))"
proof (cases "pairs = []")
  case True
  then show ?thesis by (simp add: parse_empty_key parse_lookup pair_key_def)
next
  case False
  then have "split (CHR '','') (join (CHR '','') pairs) = pairs"
    using assms by (rule split_join)
  then show ?thesis by (simp add: parse_empty_key parse_lookup)
qed

theorem parse_last_pair_wins_witness:
  "parseNamedParametersString ''t=1,x,t=2,,=y'' ''t'' = Some (Some ''2'')
   \<and> parseNamedParametersString ''t=1,x,t=2,,=y'' '''' = None"
  using parse_last_pair_wins [of "[''t=1'', ''x'', ''t=2'', '''', ''=y'']" "''t''"]
        parse_last_pair_wins [of "[''t=1'', ''x'', ''t=2'', '''', ''=y'']" "''''"]
  by (simp add: pair_key_def pair_value_def)
subsection \<open>The stages of the ingestor\<close>

lemma parseRawBody_Some:
  "has_string_payload rawBody p \<Longrightarrow> parseRawBody rawBody = Some \<lparr>payload = p\<rparr>"
  by (cases rawBody) (simp_all add: has_string_payload_def parseRawBody_def)

lemma parseRawBody_None:
  "\<not> carries_string_payload rawBody \<Longrightarrow> parseRawBody rawBody = None"
  by (cases rawBody)
     (auto simp: carries_string_payload_def parseRawBody_def split: option.splits jsval.splits)

lemma parseRawBody_carries:
  "parseRawBody rawBody = Some b \<Longrightarrow> has_string_payload rawBody (payload b)"
  by (cases rawBody)
     (auto simp: has_string_payload_def parseRawBody_def split: option.splits jsval.splits if_splits)

lemma JSON_parse_throws: "JSON_parse text = Inl e \<Longrightarrow> e = SyntaxError"
  by (auto simp: JSON_parse_def split: option.splits if_splits)

lemma stage_method:
  assumes "isRequestMethodPost (adapter config) = Some f" and "f request = Inr False"
  shows "createGetCentraWebhookEvents config request =
           (Resolved (Errors [\<lparr>message = ''Invalid request method''\<rparr>]), [CallIsRequestMethodPost])"
  using assms by (simp add: createGetCentraWebhookEvents_def)

lemma stage_body:
  assumes "passes_method_check config request"
    and "getRawBody (adapter config) request = Inr rawBody"
    and "parseRawBody rawBody = None"
  shows "createGetCentraWebhookEvents config request =
           (Resolved (Errors [\<lparr>message = ''Invalid request body''\<rparr>]),
            method_effects config @ [CallGetRawBody])"
  using assms
  by (auto simp: createGetCentraWebhookEvents_def passes_method_check_def method_effects_def
           split: option.splits)

lemma stage_no_secret:
  assumes "passes_method_check config request"
    and "getRawBody (adapter config) request = Inr rawBody"
    and "parseRawBody rawBody = Some b"
    and "secret config = None \<or> secret config = Some []"
  shows "createGetCentraWebhookEvents config request =
           ((case JSON_parse (payload b) of
               Inl thrown \<Rightarrow> Rejected thrown
             | Inr payloadParsed \<Rightarrow> Resolved (Data payloadParsed)),
            method_effects config @ [CallGetRawBody])"
  using assms
  by (auto simp: createGetCentraWebhookEvents_def passes_method_check_def method_effects_def
           split: option.splits sum.splits)

lemma stage_no_signature:
  assumes "passes_method_check config request"
    and "getRawBody (adapter config) request = Inr rawBody"
    and "parseRawBody rawBody = Some b"
    and "secret_in_use config s"
    and "getHeader (adapter config) request ''x-centra-signature'' = Inr None
         \<or> getHeader (adapter config) request ''x-centra-signature'' = Inr (Some [])"
  shows "createGetCentraWebhookEvents config request =
           (Resolved (Errors [\<lparr>message = ''No signature''\<rparr>]),
            method_effects config @ [CallGetRawBody, CallGetHeader ''x-centra-signature''])"
  using assms
  by (auto simp: createGetCentraWebhookEvents_def passes_method_check_def method_effects_def
                 secret_in_use_def
           split: option.splits sum.splits)

lemma stage_signature:
  assumes "passes_method_check config request"
    and "getRawBody (adapter config) request = Inr rawBody"
    and "parseRawBody rawBody = Some b"
    and "secret_in_use config s"
    and "getHeader (adapter config) request ''x-centra-signature'' = Inr (Some h)"
    and "h \<noteq> []"
  shows "createGetCentraWebhookEvents config request =
           (if Some (sign s (template (param (parseNamedParametersString h) ''t'')
                       @ ''.payload='' @ encodeURIComponent (payload b)))
               \<noteq> param (parseNamedParametersString h) ''v1''
            then (Resolved (Errors [\<lparr>message = ''Invalid signature''\<rparr>]),
                  method_effects config @ [CallGetRawBody, CallGetHeader ''x-centra-signature'',
                                           ConsoleError ''Invalid signature''])
            else ((case JSON_parse (payload b) of
                     Inl thrown \<Rightarrow> Rejected thrown
                   | Inr payloadParsed \<Rightarrow> Resolved (Data payloadParsed)),
                  method_effects config @ [CallGetRawBody, CallGetHeader ''x-centra-signature'']))"
  using assms
  by (auto simp: createGetCentraWebhookEvents_def passes_method_check_def method_effects_def
                 secret_in_use_def Let_def
           split: option.splits sum.splits)
subsection \<open>The method check\<close>

text \<open>
  C5, as the code has it. For every configuration whose adapter defines
  \<^verbatim>\<open>isRequestMethodPost\<close> and every request on which it returns \<^verbatim>\<open>false\<close>, the ingestor
  resolves with exactly \<^verbatim>\<open>[{ message: 'Invalid request method' }]\<close>; the only effect is the
  call of the predicate, and the result is the same whatever \<^verbatim>\<open>getHeader\<close> and
  \<^verbatim>\<open>getRawBody\<close> are: they are not invoked.
\<close>

theorem invalid_request_method:
  assumes "isRequestMethodPost (adapter config) = Some f" and "f request = Inr False"
  shows "createGetCentraWebhookEvents config request =
           (Resolved (Errors [\<lparr>message = ''Invalid request method''\<rparr>]), [CallIsRequestMethodPost])
         \<and> createGetCentraWebhookEvents
               (config\<lparr>adapter := (adapter config)\<lparr>getHeader := gh, getRawBody := grb\<rparr>\<rparr>) request
             = createGetCentraWebhookEvents config request"
  using assms by (simp add: stage_method)

theorem invalid_request_method_witness:
  "createGetCentraWebhookEvents (pages_config None) (pages_request ''GET'' None JNull) =
     (Resolved (Errors [\<lparr>message = ''Invalid request method''\<rparr>]), [CallIsRequestMethodPost])
   \<and> createGetCentraWebhookEvents
         ((pages_config None)\<lparr>adapter := (adapter (pages_config None))
            \<lparr>getHeader := (\<lambda>request headerKey. Inl (Error ''not called'')),
             getRawBody := (\<lambda>request. Inl (Error ''not called''))\<rparr>\<rparr>)
         (pages_request ''GET'' None JNull)
       = createGetCentraWebhookEvents (pages_config None) (pages_request ''GET'' None JNull)"
  using invalid_request_method
          [where config = "pages_config None"
             and f = "\<lambda>request. Inr (http_method request = ''POST'')"
             and request = "pages_request ''GET'' None JNull"
             and gh = "\<lambda>request headerKey. Inl (Error ''not called'')"
             and grb = "\<lambda>request. Inl (Error ''not called'')"]
  by (simp add: pages_config_def pages_request_def nextPagesRouterAdapter_def)

text \<open>
  C5 as stated fails: the message of the code is \<open>Invalid request method\<close>, not
  \<open>InvalidRequestMethod\<close>.
\<close>

theorem invalid_request_method_counterexample:
  "fst (createGetCentraWebhookEvents (pages_config None) (pages_request ''GET'' None JNull))
     = Resolved (Errors [\<lparr>message = ''Invalid request method''\<rparr>])
   \<and> fst (createGetCentraWebhookEvents (pages_config None) (pages_request ''GET'' None JNull))
     \<noteq> Resolved (Errors [\<lparr>message = ''InvalidRequestMethod''\<rparr>])"
  by (simp add: createGetCentraWebhookEvents_def pages_config_def pages_request_def
                nextPagesRouterAdapter_def)

subsection \<open>The body\<close>

text \<open>
  C8, as the code has it. For every configuration, with or without a secret, and every
  request passing any configured method check, if the raw body the adapter supplies is
  not an object carrying a string field \<open>payload\<close>, the ingestor resolves with exactly
  \<^verbatim>\<open>[{ message: 'Invalid request body' }]\<close>. Its effects end with the call of
  \<^verbatim>\<open>getRawBody\<close>: the signature is not inspected, and the result is the same whatever the
  secret and \<^verbatim>\<open>getHeader\<close> are.
\<close>

theorem invalid_request_body:
  assumes "passes_method_check config request"
    and "getRawBody (adapter config) request = Inr rawBody"
    and "\<not> carries_string_payload rawBody"
  shows "createGetCentraWebhookEvents config request =
           (Resolved (Errors [\<lparr>message = ''Invalid request body''\<rparr>]),
            method_effects config @ [CallGetRawBody])
         \<and> createGetCentraWebhookEvents
               (config\<lparr>adapter := (adapter config)\<lparr>getHeader := gh\<rparr>, secret := s\<rparr>) request
             = createGetCentraWebhookEvents config request"
proof -
  let ?config' = "config\<lparr>adapter := (adapter config)\<lparr>getHeader := gh\<rparr>, secret := s\<rparr>"
  have none: "parseRawBody rawBody = None"
    using assms(3) by (rule parseRawBody_None)
  have "passes_method_check ?config' request"
    and "getRawBody (adapter ?config') request = Inr rawBody"
    and "method_effects ?config' = method_effects config"
    using assms(1,2) by (simp_all add: passes_method_check_def method_effects_def)
  then have "createGetCentraWebhookEvents ?config' request =
           (Resolved (Errors [\<lparr>message = ''Invalid request body''\<rparr>]),
            method_effects config @ [CallGetRawBody])"
    using none stage_body [of ?config' request rawBody] by simp
  then show ?thesis
    using stage_body [OF assms(1,2) none] by simp
qed

theorem invalid_request_body_witness:
  "createGetCentraWebhookEvents (pages_config (Some ''secret''))
       (pages_request ''POST'' None (JObject [(''payload'', JNumber 1 0)])) =
     (Resolved (Errors [\<lparr>message = ''Invalid request body''\<rparr>]),
      [CallIsRequestMethodPost, CallGetRawBody])"
  using invalid_request_body
          [where config = "pages_config (Some ''secret'')"
             and request = "pages_request ''POST'' None (JObject [(''payload'', JNumber 1 0)])"
             and rawBody = "JObject [(''payload'', JNumber 1 0)]"]
  by (simp add: pages_config_def pages_request_def nextPagesRouterAdapter_def
                passes_method_check_def carries_string_payload_def method_effects_def)

text \<open>
  C8 as stated fails: the message of the code is \<open>Invalid request body\<close>, not
  \<open>InvalidRequestBody\<close>.
\<close>

theorem invalid_request_body_counterexample:
  "fst (createGetCentraWebhookEvents (pages_config None) (pages_request ''POST'' None JNull))
     = Resolved (Errors [\<lparr>message = ''Invalid request body''\<rparr>])
   \<and> fst (createGetCentraWebhookEvents (pages_config None) (pages_request ''POST'' None JNull))
     \<noteq> Resolved (Errors [\<lparr>message = ''InvalidRequestBody''\<rparr>])"
  by (simp add: createGetCentraWebhookEvents_def pages_config_def pages_request_def
                nextPagesRouterAdapter_def parseRawBody_def)
subsection \<open>Without a secret\<close>

text \<open>
  C4, as the code has it. For every configuration with no secret and every request that
  passes any configured method check and whose raw body is an object carrying a string
  field \<open>payload\<close>, the ingestor returns the success pair (no-error marker,
  \<^verbatim>\<open>JSON.parse(payload)\<close>) when the payload is valid JSON, and the promise is rejected with
  what \<^verbatim>\<open>JSON.parse\<close> throws when it is not. \<^verbatim>\<open>getHeader\<close> is not among the effects: the
  signature header is never consulted, and the result is the same whatever \<^verbatim>\<open>getHeader\<close>
  is.
\<close>

theorem no_secret_skips_verification:
  assumes "secret config = None"
    and "passes_method_check config request"
    and "getRawBody (adapter config) request = Inr rawBody"
    and "has_string_payload rawBody p"
  shows "createGetCentraWebhookEvents config request =
           ((case JSON_parse p of
               Inl thrown \<Rightarrow> Rejected thrown
             | Inr payloadParsed \<Rightarrow> Resolved (Data payloadParsed)),
            method_effects config @ [CallGetRawBody])
         \<and> createGetCentraWebhookEvents
               (config\<lparr>adapter := (adapter config)\<lparr>getHeader := gh\<rparr>\<rparr>) request
             = createGetCentraWebhookEvents config request"
proof -
  let ?config' = "config\<lparr>adapter := (adapter config)\<lparr>getHeader := gh\<rparr>\<rparr>"
  have some: "parseRawBody rawBody = Some \<lparr>payload = p\<rparr>"
    using assms(4) by (rule parseRawBody_Some)
  have "passes_method_check ?config' request"
    and "getRawBody (adapter ?config') request = Inr rawBody"
    and "secret ?config' = None \<or> secret ?config' = Some []"
    and "method_effects ?config' = method_effects config"
    using assms(1,2,3) by (simp_all add: passes_method_check_def method_effects_def)
  then have "createGetCentraWebhookEvents ?config' request =
           ((case JSON_parse p of
               Inl thrown \<Rightarrow> Rejected thrown
             | Inr payloadParsed \<Rightarrow> Resolved (Data payloadParsed)),
            method_effects config @ [CallGetRawBody])"
    using some stage_no_secret [of ?config' request rawBody "\<lparr>payload = p\<rparr>"] by simp
  moreover have "createGetCentraWebhookEvents config request =
           ((case JSON_parse p of
               Inl thrown \<Rightarrow> Rejected thrown
             | Inr payloadParsed \<Rightarrow> Resolved (Data payloadParsed)),
            method_effects config @ [CallGetRawBody])"
    using some assms(1) stage_no_secret [OF assms(2,3), of "\<lparr>payload = p\<rparr>"] by simp
  ultimately show ?thesis by simp
qed

theorem no_secret_skips_verification_witness:
  "createGetCentraWebhookEvents (pages_config None)
       (pages_request ''POST'' (Some ''t=1,v1=00'')
          (JObject [(''payload'', JString ''{\"products\": [\"1\"]}'')])) =
     (Resolved (Data (JObject [(''products'', JArray [JString ''1''])])),
      [CallIsRequestMethodPost, CallGetRawBody])"
proof -
  have "JSON_parse ''{\"products\": [\"1\"]}'' = Inr (JObject [(''products'', JArray [JString ''1''])])"
    by code_simp
  then show ?thesis
    using no_secret_skips_verification
            [where config = "pages_config None"
               and request = "pages_request ''POST'' (Some ''t=1,v1=00'')
                                (JObject [(''payload'', JString ''{\"products\": [\"1\"]}'')])"
               and rawBody = "JObject [(''payload'', JString ''{\"products\": [\"1\"]}'')]"
               and p = "''{\"products\": [\"1\"]}''"]
    by (simp add: pages_config_def pages_request_def nextPagesRouterAdapter_def
                  passes_method_check_def has_string_payload_def method_effects_def)
qed

text \<open>
  C4 as stated fails on a request that does not pass the method check, and on a payload
  that is not valid JSON.
\<close>

theorem no_secret_skips_verification_counterexample:
  "fst (createGetCentraWebhookEvents (pages_config None)
          (pages_request ''GET'' None (JObject [(''payload'', JString ''{}'')])))
     = Resolved (Errors [\<lparr>message = ''Invalid request method''\<rparr>])
   \<and> fst (createGetCentraWebhookEvents (pages_config None)
          (pages_request ''POST'' None (JObject [(''payload'', JString ''not json'')])))
     = Rejected SyntaxError"
  by code_simp

subsection \<open>The signature\<close>

text \<open>
  C7, as the code has it. For every configuration with a secret that is not the empty
  string, a request that passes any configured method check, whose raw body is an object
  carrying a string field \<open>payload\<close> and whose header \<open>x-centra-signature\<close> is missing
  (\<^verbatim>\<open>getHeader\<close> returns the absent marker) yields exactly
  \<^verbatim>\<open>[{ message: 'No signature' }]\<close>.
\<close>

theorem no_signature:
  assumes "secret_in_use config s"
    and "passes_method_check config request"
    and "getRawBody (adapter config) request = Inr rawBody"
    and "has_string_payload rawBody p"
    and "getHeader (adapter config) request ''x-centra-signature'' = Inr None"
  shows "createGetCentraWebhookEvents config request =
           (Resolved (Errors [\<lparr>message = ''No signature''\<rparr>]),
            method_effects config @ [CallGetRawBody, CallGetHeader ''x-centra-signature''])"
  using stage_no_signature [OF assms(2,3) parseRawBody_Some [OF assms(4)] assms(1)] assms(5)
  by simp

theorem no_signature_witness:
  "createGetCentraWebhookEvents (pages_config (Some ''secret''))
       (pages_request ''POST'' None (JObject [(''payload'', JString ''{}'')])) =
     (Resolved (Errors [\<lparr>message = ''No signature''\<rparr>]),
      [CallIsRequestMethodPost, CallGetRawBody, CallGetHeader ''x-centra-signature''])"
  using no_signature
          [where config = "pages_config (Some ''secret'')" and s = "''secret''"
             and request = "pages_request ''POST'' None (JObject [(''payload'', JString ''{}'')])"
             and rawBody = "JObject [(''payload'', JString ''{}'')]" and p = "''{}''"]
  by (simp add: pages_config_def pages_request_def nextPagesRouterAdapter_def
                passes_method_check_def has_string_payload_def method_effects_def
                secret_in_use_def)

text \<open>
  C7 as stated fails: the message of the code is \<open>No signature\<close>, not \<open>NoSignature\<close>; a
  secret that is the empty string is treated as no secret; and a body without a string
  \<open>payload\<close> is refused before the header is read.
\<close>

theorem no_signature_counterexample:
  "fst (createGetCentraWebhookEvents (pages_config (Some ''secret''))
          (pages_request ''POST'' None (JObject [(''payload'', JString ''{}'')])))
     = Resolved (Errors [\<lparr>message = ''No signature''\<rparr>])
   \<and> fst (createGetCentraWebhookEvents (pages_config (Some ''secret''))
          (pages_request ''POST'' None (JObject [(''payload'', JString ''{}'')])))
     \<noteq> Resolved (Errors [\<lparr>message = ''NoSignature''\<rparr>])
   \<and> fst (createGetCentraWebhookEvents (pages_config (Some ''''))
          (pages_request ''POST'' None (JObject [(''payload'', JString ''{}'')])))
     = Resolved (Data (JObject []))
   \<and> fst (createGetCentraWebhookEvents (pages_config (Some ''secret''))
          (pages_request ''POST'' None JNull))
     = Resolved (Errors [\<lparr>message = ''Invalid request body''\<rparr>])"
  by code_simp






subsection \<open>Failures as data\<close>

lemma has_string_payload_unique:
  "has_string_payload rawBody p \<Longrightarrow> has_string_payload rawBody q \<Longrightarrow> q = p"
  by (cases rawBody) (simp_all add: has_string_payload_def)

lemma parseRawBody_None_no_payload:
  "parseRawBody rawBody = None \<Longrightarrow> \<not> has_string_payload rawBody p"
  using parseRawBody_Some [of rawBody p] by auto

lemma method_check_fails:
  assumes "adapter_returns config request" and "\<not> passes_method_check config request"
  shows "\<exists>f. isRequestMethodPost (adapter config) = Some f \<and> f request = Inr False"
  using assms
  by (auto simp: adapter_returns_def passes_method_check_def split: option.splits sum.splits)

lemma classify_failed:
  assumes "r = Resolved (Errors [\<lparr>message = m\<rparr>])" and "m \<in> set messages"
    and "\<And>q. \<not> A q"
  shows "(case r of
            Resolved (Errors errs) \<Rightarrow>
              (\<exists>m \<in> set messages. errs = [\<lparr>message = m\<rparr>]) \<and> \<not> (\<exists>p. A p)
          | Resolved (Data payloadParsed) \<Rightarrow> (\<exists>p. A p \<and> JSON_parse p = Inr payloadParsed)
          | Rejected thrown \<Rightarrow>
              thrown = SyntaxError \<and> (\<exists>p. A p \<and> JSON_parse p = Inl SyntaxError))
         \<and> ((\<exists>thrown. r = Rejected thrown) \<longleftrightarrow> (\<exists>p. A p \<and> JSON_parse p = Inl SyntaxError))
         \<and> ((\<exists>payloadParsed. r = Resolved (Data payloadParsed))
              \<longleftrightarrow> (\<exists>p payloadParsed. A p \<and> JSON_parse p = Inr payloadParsed))"
  using assms by simp

lemma classify_decoded:
  assumes "r = (case JSON_parse p of
                  Inl thrown \<Rightarrow> Rejected thrown
                | Inr payloadParsed \<Rightarrow> Resolved (Data payloadParsed))"
    and "A p" and "\<And>q. A q \<Longrightarrow> q = p"
  shows "(case r of
            Resolved (Errors errs) \<Rightarrow>
              (\<exists>m \<in> set messages. errs = [\<lparr>message = m\<rparr>]) \<and> \<not> (\<exists>p. A p)
          | Resolved (Data payloadParsed) \<Rightarrow> (\<exists>p. A p \<and> JSON_parse p = Inr payloadParsed)
          | Rejected thrown \<Rightarrow>
              thrown = SyntaxError \<and> (\<exists>p. A p \<and> JSON_parse p = Inl SyntaxError))
         \<and> ((\<exists>thrown. r = Rejected thrown) \<longleftrightarrow> (\<exists>p. A p \<and> JSON_parse p = Inl SyntaxError))
         \<and> ((\<exists>payloadParsed. r = Resolved (Data payloadParsed))
              \<longleftrightarrow> (\<exists>p payloadParsed. A p \<and> JSON_parse p = Inr payloadParsed))"
proof (cases "JSON_parse p")
  case (Inl thrown)
  then have syn: "JSON_parse p = Inl SyntaxError"
    using JSON_parse_throws by blast
  then have r: "r = Rejected SyntaxError"
    using assms(1) by simp
  have "\<not> (\<exists>q v. A q \<and> JSON_parse q = Inr v)"
    using assms(3) syn by fastforce
  then show ?thesis
    using r syn assms(2) by auto
next
  case (Inr payloadParsed)
  then have r: "r = Resolved (Data payloadParsed)"
    using assms(1) by simp
  have "\<not> (\<exists>q. A q \<and> JSON_parse q = Inl SyntaxError)"
    using assms(3) Inr by fastforce
  then show ?thesis
    using r Inr assms(2) by auto
qed

text \<open>
  C3, as the code has it. For every configuration and every request on which the adapter
  functions do not throw, each of the four failure kinds is returned as data: when a
  check fails the promise resolves with a single-element list holding a
  \<^verbatim>\<open>{ message }\<close> record whose message is one of the four of the code. The promise is
  rejected exactly when all checks pass and the payload string is not valid JSON; it is
  then rejected with the \<open>SyntaxError\<close> of \<^verbatim>\<open>JSON.parse\<close>. It resolves with data exactly when
  all checks pass and the payload is valid JSON, and the data is its decoding.
\<close>

theorem failures_are_data:
  assumes "adapter_returns config request"
  shows "(case fst (createGetCentraWebhookEvents config request) of
            Resolved (Errors errs) \<Rightarrow>
              (\<exists>m \<in> set messages. errs = [\<lparr>message = m\<rparr>])
              \<and> \<not> (\<exists>p. all_checks_pass config request p)
          | Resolved (Data payloadParsed) \<Rightarrow>
              (\<exists>p. all_checks_pass config request p \<and> JSON_parse p = Inr payloadParsed)
          | Rejected thrown \<Rightarrow>
              thrown = SyntaxError
              \<and> (\<exists>p. all_checks_pass config request p \<and> JSON_parse p = Inl SyntaxError))
         \<and> ((\<exists>thrown. fst (createGetCentraWebhookEvents config request) = Rejected thrown)
              \<longleftrightarrow> (\<exists>p. all_checks_pass config request p \<and> JSON_parse p = Inl SyntaxError))
         \<and> ((\<exists>payloadParsed. fst (createGetCentraWebhookEvents config request)
                                  = Resolved (Data payloadParsed))
              \<longleftrightarrow> (\<exists>p payloadParsed. all_checks_pass config request p
                                        \<and> JSON_parse p = Inr payloadParsed))"
proof -
  let ?run = "fst (createGetCentraWebhookEvents config request)"
  obtain rawBody where raw: "getRawBody (adapter config) request = Inr rawBody"
    using assms by (auto simp: adapter_returns_def split: sum.splits)
  obtain signature where sig: "getHeader (adapter config) request ''x-centra-signature'' = Inr signature"
    using assms by (auto simp: adapter_returns_def split: sum.splits)
  note failed = classify_failed [where r = ?run and A = "all_checks_pass config request"]
  note decoded = classify_decoded [where r = ?run and A = "all_checks_pass config request"]
  show ?thesis
  proof (cases "passes_method_check config request")
    case False
    then obtain f where "isRequestMethodPost (adapter config) = Some f" and "f request = Inr False"
      using method_check_fails [OF assms] by blast
    then have r: "?run = Resolved (Errors [\<lparr>message = ''Invalid request method''\<rparr>])"
      by (simp add: stage_method)
    show ?thesis
      using False by (intro failed [OF r]) (simp_all add: messages_def all_checks_pass_def)
  next
    case pass: True
    show ?thesis
    proof (cases "parseRawBody rawBody")
      case None
      then have r: "?run = Resolved (Errors [\<lparr>message = ''Invalid request body''\<rparr>])"
        using stage_body [OF pass raw] by simp
      show ?thesis
        using parseRawBody_None_no_payload [OF None] raw
        by (intro failed [OF r]) (simp_all add: messages_def all_checks_pass_def)
    next
      case (Some b)
      define p where "p = payload b"
      have carries: "has_string_payload rawBody p"
        unfolding p_def using Some by (rule parseRawBody_carries)
      have only: "q = p" if "all_checks_pass config request q" for q
        using that raw has_string_payload_unique [OF carries] by (simp add: all_checks_pass_def)
      have passes: "all_checks_pass config request p \<longleftrightarrow> signature_accepted config request p"
        using pass raw carries by (simp add: all_checks_pass_def)
      show ?thesis
      proof (cases "secret config = None \<or> secret config = Some []")
        case True
        then have "?run = (case JSON_parse p of
                             Inl thrown \<Rightarrow> Rejected thrown
                           | Inr payloadParsed \<Rightarrow> Resolved (Data payloadParsed))"
          using stage_no_secret [OF pass raw Some] by (simp add: p_def)
        moreover have "all_checks_pass config request p"
          using True by (auto simp: passes signature_accepted_def)
        ultimately show ?thesis
          using only by (rule decoded)
      next
        case False
        then obtain s where use: "secret_in_use config s"
          by (auto simp: secret_in_use_def)
        then have s: "secret config = Some s" "s \<noteq> []"
          by (simp_all add: secret_in_use_def)
        show ?thesis
        proof (cases "signature = None \<or> signature = Some []")
          case True
          then have r: "?run = Resolved (Errors [\<lparr>message = ''No signature''\<rparr>])"
            using stage_no_signature [OF pass raw Some use] sig by auto
          have "\<not> all_checks_pass config request q" for q
            using True sig s only [of q] by (auto simp: passes signature_accepted_def)
          then show ?thesis
            by (intro failed [OF r]) (simp_all add: messages_def)
        next
          case False
          then obtain h where h: "signature = Some h" "h \<noteq> []"
            by auto
          let ?expected = "Some (sign s (template (param (parseNamedParametersString h) ''t'')
                                   @ ''.payload='' @ encodeURIComponent p))"
          have accepted: "signature_accepted config request p
                            \<longleftrightarrow> param (parseNamedParametersString h) ''v1'' = ?expected"
            using sig s h by (simp add: signature_accepted_def)
          note stage = stage_signature [OF pass raw Some use, of h]
          show ?thesis
          proof (cases "param (parseNamedParametersString h) ''v1'' = ?expected")
            case True
            then have "?run = (case JSON_parse p of
                                 Inl thrown \<Rightarrow> Rejected thrown
                               | Inr payloadParsed \<Rightarrow> Resolved (Data payloadParsed))"
              using stage sig h by (simp add: p_def)
            moreover have "all_checks_pass config request p"
              using True by (simp add: passes accepted)
            ultimately show ?thesis
              using only by (rule decoded)
          next
            case False
            then have r: "?run = Resolved (Errors [\<lparr>message = ''Invalid signature''\<rparr>])"
              using stage sig h by (auto simp: p_def)
            have "\<not> all_checks_pass config request q" for q
              using False only [of q] by (auto simp: passes accepted)
            then show ?thesis
              by (intro failed [OF r]) (simp_all add: messages_def)
          qed
        qed
      qed
    qed
  qed
qed

theorem failures_are_data_witness:
  "fst (createGetCentraWebhookEvents (pages_config None)
          (pages_request ''POST'' None (JObject [(''payload'', JString ''not json'')])))
     = Rejected SyntaxError
   \<and> (\<exists>payloadParsed.
         fst (createGetCentraWebhookEvents (pages_config None)
                (pages_request ''POST'' None (JObject [(''payload'', JString ''[]'')])))
           = Resolved (Data payloadParsed))"
proof -
  let ?config = "pages_config None"
  let ?bad = "pages_request ''POST'' None (JObject [(''payload'', JString ''not json'')])"
  let ?good = "pages_request ''POST'' None (JObject [(''payload'', JString ''[]'')])"
  have returns: "adapter_returns ?config (pages_request ''POST'' None raw)" for raw
    by (simp add: adapter_returns_def pages_config_def pages_request_def nextPagesRouterAdapter_def)
  have pass: "all_checks_pass ?config (pages_request ''POST'' None (JObject [(''payload'', JString p)])) p"
    for p
    by (simp add: all_checks_pass_def signature_accepted_def passes_method_check_def
                  has_string_payload_def pages_config_def pages_request_def
                  nextPagesRouterAdapter_def)
  have bad: "JSON_parse ''not json'' = Inl SyntaxError" and good: "JSON_parse ''[]'' = Inr (JArray [])"
    by code_simp+
  have "\<exists>thrown. fst (createGetCentraWebhookEvents ?config ?bad) = Rejected thrown"
    using failures_are_data [OF returns [of "JObject [(''payload'', JString ''not json'')]"]]
          pass [of "''not json''"] bad
    by blast
  then obtain thrown where "fst (createGetCentraWebhookEvents ?config ?bad) = Rejected thrown"
    by blast
  then have first: "fst (createGetCentraWebhookEvents ?config ?bad) = Rejected SyntaxError"
    using failures_are_data [OF returns [of "JObject [(''payload'', JString ''not json'')]"]]
    by simp
  have "\<exists>payloadParsed. fst (createGetCentraWebhookEvents ?config ?good) = Resolved (Data payloadParsed)"
    using failures_are_data [OF returns [of "JObject [(''payload'', JString ''[]'')]"]]
          pass [of "''[]''"] good
    by blast
  with first show ?thesis
    by simp
qed

text \<open>
  C3 as stated fails: with no secret and a payload that is not valid JSON, no adapter
  function throws and the promise is rejected.
\<close>

theorem failures_are_data_counterexample:
  "adapter_returns (pages_config None)
     (pages_request ''POST'' None (JObject [(''payload'', JString ''not json'')]))
   \<and> fst (createGetCentraWebhookEvents (pages_config None)
            (pages_request ''POST'' None (JObject [(''payload'', JString ''not json'')])))
       = Rejected SyntaxError"
  by code_simp

subsection \<open>Pairs with more than one \<open>=\<close>, and unknown pairs\<close>

lemma pair_key_value:
  assumes "CHR ''='' \<notin> set k" and "CHR ''='' \<notin> set v"
  shows "pair_key (k @ CHR ''='' # v) = k" and "pair_value (k @ CHR ''='' # v) = Some v"
proof -
  let ?P = "\<lambda>c. c \<noteq> CHR ''=''"
  have k: "\<And>c. c \<in> set k \<Longrightarrow> ?P c" and v: "takeWhile ?P v = v"
    using assms by (auto simp: takeWhile_eq_all_conv)
  have "takeWhile ?P (k @ CHR ''='' # v) = k @ takeWhile ?P (CHR ''='' # v)"
    using k by (rule takeWhile_append2)
  then show "pair_key (k @ CHR ''='' # v) = k"
    by (simp add: pair_key_def)
  have "dropWhile ?P (k @ CHR ''='' # v) = dropWhile ?P (CHR ''='' # v)"
    using k by (rule dropWhile_append2)
  then show "pair_value (k @ CHR ''='' # v) = Some v"
    using v by (simp add: pair_value_def)
qed

lemma extra_pair_same_outcome:
  assumes "unknown_pair e" and "with_extra_pair e h h'" and "h \<noteq> []"
  shows "createGetCentraWebhookEvents (with_signature_header config (Some h')) request
           = createGetCentraWebhookEvents (with_signature_header config (Some h)) request"
proof -
  have t: "param (parseNamedParametersString h') ''t'' = param (parseNamedParametersString h) ''t''"
    and v1: "param (parseNamedParametersString h') ''v1'' = param (parseNamedParametersString h) ''v1''"
    using assms(1,2) by (simp_all add: param_extra_pair)
  have "h' \<noteq> []"
    using assms(2,3) by (auto simp: with_extra_pair_def)
  then show ?thesis
    using assms(3)
    by (simp add: createGetCentraWebhookEvents_def with_signature_header_def Let_def t v1
             cong: option.case_cong sum.case_cong prod.case_cong bool.case_cong if_cong)
qed

text \<open>
  C2, as the code has it. The parser splits the header on \<open>,\<close> and each pair on every
  \<open>=\<close>, keeping the first piece as the key and the second as the value: a pair \<open>k=a=b\<close>
  binds \<open>k\<close> to \<open>a\<close>, and a pair with no \<open>=\<close> binds its key to \<^verbatim>\<open>undefined\<close>. A pair
  lacking a key is dropped, so the empty string is never a key. An extra pair whose key
  is neither \<open>t\<close> nor \<open>v1\<close>, put anywhere in a header that is not empty, changes neither
  the result nor the effects of the ingestor.
\<close>

theorem parse_pairs_and_extra_pairs:
  assumes "unknown_pair e" and "with_extra_pair e h h'" and "h \<noteq> []"
  shows "(\<forall>pair. CHR '','' \<notin> set pair \<longrightarrow>
             parseNamedParametersString pair =
               (if pair_key pair = [] then Map.empty else [pair_key pair \<mapsto> pair_value pair]))
         \<and> (\<forall>a b. parseNamedParametersString (a @ CHR '','' # b)
                     = parseNamedParametersString a ++ parseNamedParametersString b)
         \<and> (\<forall>input. parseNamedParametersString input [] = None)
         \<and> createGetCentraWebhookEvents (with_signature_header config (Some h')) request
             = createGetCentraWebhookEvents (with_signature_header config (Some h)) request"
  using extra_pair_same_outcome [OF assms]
  by (simp add: parse_single add_pair_def parse_append parse_empty_key)

theorem parse_pairs_and_extra_pairs_witness:
  "parseNamedParametersString ''k=a=b'' = [''k'' \<mapsto> Some ''a'']
   \<and> parseNamedParametersString ''novalue'' = [''novalue'' \<mapsto> None]
   \<and> parseNamedParametersString ''=x'' = Map.empty
   \<and> createGetCentraWebhookEvents
         (with_signature_header (pages_config (Some ''secret'')) (Some ''t=1,foo=bar,v1=00''))
         (pages_request ''POST'' None (JObject [(''payload'', JString ''{}'')]))
       = createGetCentraWebhookEvents
           (with_signature_header (pages_config (Some ''secret'')) (Some ''t=1,v1=00''))
           (pages_request ''POST'' None (JObject [(''payload'', JString ''{}'')]))"
proof -
  have u: "unknown_pair ''foo=bar''"
    by (simp add: unknown_pair_def pair_key_def)
  have "''t=1,v1=00'' = ''t=1'' @ CHR '','' # ''v1=00''"
    and "''t=1,foo=bar,v1=00'' = ''t=1'' @ CHR '','' # ''foo=bar'' @ CHR '','' # ''v1=00''"
    by simp_all
  then have w: "with_extra_pair ''foo=bar'' ''t=1,v1=00'' ''t=1,foo=bar,v1=00''"
    unfolding with_extra_pair_def by blast
  have n: "''t=1,v1=00'' \<noteq> []"
    by simp
  note inst = parse_pairs_and_extra_pairs
               [OF u w n, where config = "pages_config (Some ''secret'')"
                  and request = "pages_request ''POST'' None (JObject [(''payload'', JString ''{}'')])"]
  have single: "CHR '','' \<notin> set pair \<Longrightarrow>
             parseNamedParametersString pair =
               (if pair_key pair = [] then Map.empty else [pair_key pair \<mapsto> pair_value pair])" for pair
    using inst by blast
  have "parseNamedParametersString ''k=a=b'' = [''k'' \<mapsto> Some ''a'']"
    and "parseNamedParametersString ''novalue'' = [''novalue'' \<mapsto> None]"
    and "parseNamedParametersString ''=x'' = Map.empty"
    by (simp_all add: single pair_key_def pair_value_def)
  then show ?thesis
    using inst by simp
qed

text \<open>
  C2 as stated fails: the pair \<open>k=a=b\<close> binds \<open>k\<close> to \<open>a\<close>, not to \<open>a=b\<close>.
\<close>

theorem parse_pairs_and_extra_pairs_counterexample:
  "parseNamedParametersString ''k=a=b'' ''k'' = Some (Some ''a'')
   \<and> parseNamedParametersString ''k=a=b'' ''k'' \<noteq> Some (Some ''a=b'')"
  by code_simp
subsection \<open>The round trip\<close>

text \<open>
  Known answers: SHA-256 of \<open>abc\<close> (FIPS 180-4), HMAC-SHA256 of test case 2 of RFC 4231,
  and two digests of \<open>sign\<close>.
\<close>

lemma sha256_abc:
  "hex (sha256 ''abc'') = ''ba7816bf8f01cfea414140de5dae2223b00361a396177a9cb410ff61f20015ad''"
  by code_simp

lemma hmac_rfc4231_2:
  "sign ''Jefe'' ''what do ya want for nothing?''
     = ''5bdcc146bf60754e6a042426089575c75a003f089d2739839dec58b964ec3843''"
  by code_simp

lemma sign_vector_1:
  "sign ''secret'' ''1.payload=%7B%7D''
     = ''181e2089525df13e10bdb89e377d5f146eb2c3a537eeb1db219e91458cb31799''"
  by code_simp

lemma sign_vector_2:
  "sign ''secret'' ''1,2.payload=%7B%7D''
     = ''1eca52020d239275ffcc35a98a7302a4e15b1f85d43dca92e20589356c645faf''"
  by code_simp

lemma parse_t_v1:
  assumes "CHR '','' \<notin> set T" and "CHR ''='' \<notin> set T"
    and "CHR '','' \<notin> set d" and "CHR ''='' \<notin> set d"
  shows "param (parseNamedParametersString (''t='' @ T @ '',v1='' @ d)) ''t'' = Some T"
    and "param (parseNamedParametersString (''t='' @ T @ '',v1='' @ d)) ''v1'' = Some d"
proof -
  let ?a = "''t'' @ CHR ''='' # T" and ?b = "''v1'' @ CHR ''='' # d"
  have a: "pair_key ?a = ''t''" "pair_value ?a = Some T"
    using pair_key_value [of "''t''" T] assms(2) by simp_all
  have b: "pair_key ?b = ''v1''" "pair_value ?b = Some d"
    using pair_key_value [of "''v1''" d] assms(4) by simp_all
  have ca: "CHR '','' \<notin> set ?a" and cb: "CHR '','' \<notin> set ?b"
    using assms(1,3) by simp_all
  have "parseNamedParametersString ?a = add_pair Map.empty ?a"
    using ca by (rule parse_single)
  moreover have "parseNamedParametersString ?b = add_pair Map.empty ?b"
    using cb by (rule parse_single)
  ultimately have "parseNamedParametersString (?a @ CHR '','' # ?b) = [''t'' \<mapsto> Some T, ''v1'' \<mapsto> Some d]"
    unfolding parse_append add_pair_def a b by simp
  moreover have "''t='' @ T @ '',v1='' @ d = ?a @ CHR '','' # ?b"
    by simp
  ultimately have "parseNamedParametersString (''t='' @ T @ '',v1='' @ d)
                     = [''t'' \<mapsto> Some T, ''v1'' \<mapsto> Some d]"
    by (simp only:)
  then show "param (parseNamedParametersString (''t='' @ T @ '',v1='' @ d)) ''t'' = Some T"
    and "param (parseNamedParametersString (''t='' @ T @ '',v1='' @ d)) ''v1'' = Some d"
    by (simp_all add: param_def)
qed

text \<open>
  C1, as the code has it. For every secret \<open>S\<close>, every timestamp string \<open>T\<close> that contains
  neither \<open>,\<close> nor \<open>=\<close> (a timestamp in seconds is such a string) and every payload string
  \<open>P\<close> whose JSON decoding succeeds: on a request that passes the method check, whose raw
  body is an object with the string field \<open>payload = P\<close> and whose header
  \<open>x-centra-signature\<close> is \<open>t=T,v1=h\<close>, where \<open>h\<close> is the lowercase hexadecimal HMAC-SHA256,
  keyed by \<open>S\<close>, of \<open>T\<close>, \<open>.payload=\<close> and \<^verbatim>\<open>encodeURIComponent(P)\<close>, the ingestor built with
  secret \<open>S\<close> returns the success result (no-error marker, \<^verbatim>\<open>JSON.parse(P)\<close>).
\<close>

theorem signed_request_round_trip:
  assumes "secret config = Some S"
    and "passes_method_check config request"
    and "getRawBody (adapter config) request = Inr rawBody"
    and "has_string_payload rawBody P"
    and "getHeader (adapter config) request ''x-centra-signature''
           = Inr (Some (''t='' @ T @ '',v1='' @ sign S (T @ ''.payload='' @ encodeURIComponent P)))"
    and "JSON_parse P = Inr payloadParsed"
    and "CHR '','' \<notin> set T" and "CHR ''='' \<notin> set T"
  shows "fst (createGetCentraWebhookEvents config request) = Resolved (Data payloadParsed)"
proof (cases "S = []")
  case True
  then show ?thesis
    using stage_no_secret [OF assms(2,3) parseRawBody_Some [OF assms(4)]] assms(1,6)
    by simp
next
  case False
  let ?d = "sign S (T @ ''.payload='' @ encodeURIComponent P)"
  let ?h = "''t='' @ T @ '',v1='' @ ?d"
  have use: "secret_in_use config S"
    using assms(1) False by (simp add: secret_in_use_def)
  have "param (parseNamedParametersString ?h) ''t'' = Some T"
    and "param (parseNamedParametersString ?h) ''v1'' = Some ?d"
    using assms(7,8) by (rule parse_t_v1; simp add: sign_no_separator)+
  then show ?thesis
    using stage_signature [OF assms(2,3) parseRawBody_Some [OF assms(4)] use assms(5)] assms(6)
    by simp
qed

theorem signed_request_round_trip_witness:
  "fst (createGetCentraWebhookEvents (pages_config (Some ''secret''))
          (pages_request ''POST''
             (Some (''t=1700000000,v1='' @ sign ''secret'' ''1700000000.payload=%7B%22products%22%3A%5B%221%22%5D%7D''))
             (JObject [(''payload'', JString ''{\"products\":[\"1\"]}'')])))
     = Resolved (Data (JObject [(''products'', JArray [JString ''1''])]))"
proof -
  let ?config = "pages_config (Some ''secret'')"
  let ?P = "''{\"products\":[\"1\"]}''"
  let ?raw = "JObject [(''payload'', JString ?P)]"
  let ?h = "''t='' @ ''1700000000'' @ '',v1=''
              @ sign ''secret'' (''1700000000'' @ ''.payload='' @ encodeURIComponent ?P)"
  have enc: "encodeURIComponent ?P = ''%7B%22products%22%3A%5B%221%22%5D%7D''"
    and json: "JSON_parse ?P = Inr (JObject [(''products'', JArray [JString ''1''])])"
    by code_simp+
  have c1: "secret ?config = Some ''secret''"
    by (simp add: pages_config_def)
  have c2: "passes_method_check ?config (pages_request ''POST'' (Some ?h) ?raw)"
    by (simp add: passes_method_check_def pages_config_def pages_request_def
                  nextPagesRouterAdapter_def)
  have c3: "getRawBody (adapter ?config) (pages_request ''POST'' (Some ?h) ?raw) = Inr ?raw"
    by (simp add: pages_config_def pages_request_def nextPagesRouterAdapter_def)
  have c4: "has_string_payload ?raw ?P"
    by (simp add: has_string_payload_def)
  have c5: "getHeader (adapter ?config) (pages_request ''POST'' (Some ?h) ?raw)
              ''x-centra-signature'' = Inr (Some ?h)"
    by (simp add: pages_config_def pages_request_def nextPagesRouterAdapter_def)
  have "fst (createGetCentraWebhookEvents ?config (pages_request ''POST'' (Some ?h) ?raw))
          = Resolved (Data (JObject [(''products'', JArray [JString ''1''])]))"
    using c1 c2 c3 c4 c5 json by (rule signed_request_round_trip) simp_all
  then show ?thesis
    by (simp add: enc)
qed

text \<open>
  C1 as stated fails for a timestamp string that contains a comma: the parser reads
  \<open>t\<close> up to the comma, and the digest over the shorter string is another one.
\<close>

theorem signed_request_round_trip_counterexample:
  "sign ''secret'' (''1,2'' @ ''.payload='' @ encodeURIComponent ''{}'')
     = ''1eca52020d239275ffcc35a98a7302a4e15b1f85d43dca92e20589356c645faf''
   \<and> JSON_parse ''{}'' = Inr (JObject [])
   \<and> fst (createGetCentraWebhookEvents (pages_config (Some ''secret''))
            (pages_request ''POST''
               (Some (''t='' @ ''1,2'' @ '',v1=''
                        @ ''1eca52020d239275ffcc35a98a7302a4e15b1f85d43dca92e20589356c645faf''))
               (JObject [(''payload'', JString ''{}'')])))
       = Resolved (Errors [\<lparr>message = ''Invalid signature''\<rparr>])"
proof -
  let ?config = "pages_config (Some ''secret'')"
  let ?raw = "JObject [(''payload'', JString ''{}'')]"
  let ?h = "''t=1,2,v1=1eca52020d239275ffcc35a98a7302a4e15b1f85d43dca92e20589356c645faf''"
  have enc: "encodeURIComponent ''{}'' = ''%7B%7D''" and json: "JSON_parse ''{}'' = Inr (JObject [])"
    by code_simp+
  have t: "param (parseNamedParametersString ?h) ''t'' = Some ''1''"
    and v1: "param (parseNamedParametersString ?h) ''v1''
               = Some ''1eca52020d239275ffcc35a98a7302a4e15b1f85d43dca92e20589356c645faf''"
    by code_simp+
  have c1: "secret_in_use ?config ''secret''"
    by (simp add: secret_in_use_def pages_config_def)
  have c2: "passes_method_check ?config (pages_request ''POST'' (Some ?h) ?raw)"
    by (simp add: passes_method_check_def pages_config_def pages_request_def
                  nextPagesRouterAdapter_def)
  have c3: "getRawBody (adapter ?config) (pages_request ''POST'' (Some ?h) ?raw) = Inr ?raw"
    by (simp add: pages_config_def pages_request_def nextPagesRouterAdapter_def)
  have c4: "parseRawBody ?raw = Some \<lparr>payload = ''{}''\<rparr>"
    by (simp add: parseRawBody_def)
  have c5: "getHeader (adapter ?config) (pages_request ''POST'' (Some ?h) ?raw)
              ''x-centra-signature'' = Inr (Some ?h)"
    by (simp add: pages_config_def pages_request_def nextPagesRouterAdapter_def)
  have "fst (createGetCentraWebhookEvents ?config (pages_request ''POST'' (Some ?h) ?raw))
          = Resolved (Errors [\<lparr>message = ''Invalid signature''\<rparr>])"
    using stage_signature [OF c2 c3 c4 c1 c5] t v1 enc sign_vector_1
    by simp
  then show ?thesis
    using sign_vector_2 enc json by simp
qed

end
